theory Spec2Isabelle
  imports Complex_Main "HOL-Library.Word"
begin

unbundle bit_operations_syntax

section \<open>The Qualcomm RPM-over-SMD clock driver (drivers/clk/qcom/clk-smd-rpm.c)\<close>

text \<open>
  A shallow embedding of the voting core of \<^verbatim>\<open>clk-smd-rpm.c\<close>: the two vote
  senders, \<^verbatim>\<open>to_active_sleep\<close>, the three \<^verbatim>\<open>clk_ops\<close> callbacks
  \<^verbatim>\<open>prepare\<close>, \<^verbatim>\<open>unprepare\<close>, \<^verbatim>\<open>set_rate\<close>, and
  \<^verbatim>\<open>clk_smd_rpm_enable_scaling\<close>.

  \<^item> \<^verbatim>\<open>unsigned long\<close> is 64 bits wide (the arm64 build, msm8916), \<^verbatim>\<open>u32\<close>
    and \<^verbatim>\<open>__le32\<close> are 32 bits, a C \<^verbatim>\<open>int\<close> return code is an \<open>int\<close>
    (no arithmetic is done on it, it is only compared with 0).
  \<^item> A \<^verbatim>\<open>struct clk_smd_rpm *\<close> is an address (a \<open>nat\<close>) into a store of
    handles; \<^verbatim>\<open>r->peer\<close> is such an address, so two handles can point at each other.
  \<^item> \<^verbatim>\<open>qcom_rpm_smd_write\<close> is the external transport. Its return code is given
    by a function of the writes submitted so far and of the write at hand, and every
    write is appended to a log, so that the order and the content of the votes of an
    operation can be read back.
  \<^item> Every callback runs between \<^verbatim>\<open>mutex_lock(&rpm_smd_clk_lock)\<close> and
    \<^verbatim>\<open>mutex_unlock\<close>; it is one state transformer here. The \<^verbatim>\<open>pr_err\<close> and
    \<^verbatim>\<open>pr_debug\<close> messages are left out.
\<close>

subsection \<open>Types\<close>

type_synonym u8 = "8 word"
type_synonym u32 = "32 word"
type_synonym ulong = "64 word"

text \<open>The operating context of a write: the first argument after the transport handle.\<close>

datatype rpm_state = QCOM_SMD_RPM_ACTIVE_STATE | QCOM_SMD_RPM_SLEEP_STATE

text \<open>
  \<^verbatim>\<open>struct clk_smd_rpm\<close> (declared in \<^verbatim>\<open>clk-smd-rpm.h\<close>), with the fields the
  source file reads and writes. \<^verbatim>\<open>hw\<close> is the embedded \<^verbatim>\<open>clk_hw\<close> from which
  \<^verbatim>\<open>to_clk_smd_rpm\<close> recovers the handle: the handle's address stands for it.
\<close>

record clk_smd_rpm =
  rpm_res_type :: u32
  rpm_key :: u32
  rpm_clk_id :: u32
  active_only :: bool
  enabled :: bool
  branch :: bool
  peer :: nat
  rate :: ulong
  rpm :: nat

text \<open>
  Modelled from the spec: \<^verbatim>\<open>struct clk_smd_rpm_req\<close> is declared in
  \<^verbatim>\<open>clk-smd-rpm.h\<close>, which is not among the sources. The spec gives it as
  three little-endian 32-bit fields, key, length and value, 12 bytes in all; the
  initialisers in the source name them \<^verbatim>\<open>key\<close>, \<^verbatim>\<open>nbytes\<close> and
  \<^verbatim>\<open>value\<close>. A \<^verbatim>\<open>__le32\<close> is held as its four bytes in memory order.
\<close>

record clk_smd_rpm_req =
  req_key :: "u8 list"
  req_nbytes :: "u8 list"
  req_value :: "u8 list"

text \<open>The arguments of one call of \<^verbatim>\<open>qcom_rpm_smd_write\<close>.\<close>

record smd_write =
  w_rpm :: nat
  w_state :: rpm_state
  w_type :: u32
  w_id :: u32
  w_buf :: "u8 list"
  w_count :: nat

type_synonym transport = "smd_write list \<Rightarrow> smd_write \<Rightarrow> int"

record world =
  clks :: "nat \<Rightarrow> clk_smd_rpm"
  rpm_log :: "smd_write list"

subsection \<open>Kernel helpers\<close>

text \<open>
  Modelled from the spec: the macro \<^verbatim>\<open>DIV_ROUND_UP\<close> comes from
  \<^verbatim>\<open>linux/kernel.h\<close>, which is not among the sources. The spec describes it as
  rounding up, \<open>ceil(n / d)\<close>; it is written as the kernel writes it,
  \<^verbatim>\<open>(((n) + (d) - 1) / (d))\<close> in the arithmetic of its operands (here
  \<^verbatim>\<open>unsigned long\<close>), which is that ceiling as long as \<open>n + d - 1\<close> does not wrap
  (lemma \<open>DIV_ROUND_UP_1000\<close> below).
\<close>

definition DIV_ROUND_UP :: "ulong \<Rightarrow> ulong \<Rightarrow> ulong" where
  "DIV_ROUND_UP n d = (n + d - 1) div d"

text \<open>
  Modelled from the spec: \<^verbatim>\<open>cpu_to_le32\<close> comes from the kernel's byte-order
  headers, which are not among the sources. It takes a \<^verbatim>\<open>u32\<close> (a wider argument is
  truncated by the conversion to the parameter type) and yields the little-endian
  32-bit field of the spec: least significant byte first.
\<close>

definition cpu_to_le32 :: "u32 \<Rightarrow> u8 list" where
  "cpu_to_le32 x =
     [ucast x, ucast (drop_bit 8 x), ucast (drop_bit 16 x), ucast (drop_bit 24 x)]"

text \<open>The bytes of a request in memory: the three fields in order, without padding.\<close>

definition req_bytes :: "clk_smd_rpm_req \<Rightarrow> u8 list" where
  "req_bytes req = req_key req @ req_nbytes req @ req_value req"

text \<open>\<^verbatim>\<open>sizeof(u32)\<close> and \<^verbatim>\<open>sizeof(struct clk_smd_rpm_req)\<close>.\<close>

definition sizeof_u32 :: nat where
  "sizeof_u32 = 4"

definition sizeof_req :: nat where
  "sizeof_req = 3 * sizeof_u32"

text \<open>\<^verbatim>\<open>!!x\<close> on an \<^verbatim>\<open>unsigned long\<close>.\<close>

definition not_not :: "ulong \<Rightarrow> ulong" where
  "not_not x = (if x \<noteq> 0 then 1 else 0)"

subsection \<open>The transport\<close>

text \<open>
  \<^verbatim>\<open>qcom_rpm_smd_write\<close>: the transport answers with a return code (0 is success)
  and the write joins the log.
\<close>

definition qcom_rpm_smd_write :: "transport \<Rightarrow> smd_write \<Rightarrow> world \<Rightarrow> int \<times> world" where
  "qcom_rpm_smd_write tr wr w = (tr (rpm_log w) wr, w\<lparr>rpm_log := rpm_log w @ [wr]\<rparr>)"

subsection \<open>The vote senders\<close>

definition clk_smd_rpm_set_rate_active ::
  "transport \<Rightarrow> clk_smd_rpm \<Rightarrow> ulong \<Rightarrow> world \<Rightarrow> int \<times> world" where
  "clk_smd_rpm_set_rate_active tr r rt w =
     (let req = \<lparr>req_key = cpu_to_le32 (rpm_key r),
                 req_nbytes = cpu_to_le32 (of_nat sizeof_u32),
                 req_value = cpu_to_le32 (ucast (DIV_ROUND_UP rt 1000))\<rparr>
      in qcom_rpm_smd_write tr
           \<lparr>w_rpm = rpm r, w_state = QCOM_SMD_RPM_ACTIVE_STATE,
            w_type = rpm_res_type r, w_id = rpm_clk_id r,
            w_buf = req_bytes req, w_count = sizeof_req\<rparr> w)"

definition clk_smd_rpm_set_rate_sleep ::
  "transport \<Rightarrow> clk_smd_rpm \<Rightarrow> ulong \<Rightarrow> world \<Rightarrow> int \<times> world" where
  "clk_smd_rpm_set_rate_sleep tr r rt w =
     (let req = \<lparr>req_key = cpu_to_le32 (rpm_key r),
                 req_nbytes = cpu_to_le32 (of_nat sizeof_u32),
                 req_value = cpu_to_le32 (ucast (DIV_ROUND_UP rt 1000))\<rparr>
      in qcom_rpm_smd_write tr
           \<lparr>w_rpm = rpm r, w_state = QCOM_SMD_RPM_SLEEP_STATE,
            w_type = rpm_res_type r, w_id = rpm_clk_id r,
            w_buf = req_bytes req, w_count = sizeof_req\<rparr> w)"

subsection \<open>Rate aggregation\<close>

text \<open>\<^verbatim>\<open>to_active_sleep\<close>: the out-parameters \<^verbatim>\<open>*active\<close> and \<^verbatim>\<open>*sleep\<close> as a pair.\<close>

definition to_active_sleep :: "clk_smd_rpm \<Rightarrow> ulong \<Rightarrow> ulong \<times> ulong" where
  "to_active_sleep r rt =
     (let active = rt
      in if active_only r then (active, 0) else (active, active))"

subsection \<open>The lifecycle callbacks\<close>

text \<open>The label \<^verbatim>\<open>out:\<close> of \<^verbatim>\<open>clk_smd_rpm_prepare\<close>.\<close>

definition prepare_out :: "nat \<Rightarrow> int \<Rightarrow> world \<Rightarrow> int \<times> world" where
  "prepare_out hw ret w =
     (if ret = 0
      then (ret, w\<lparr>clks := (clks w)(hw := (clks w hw)\<lparr>enabled := True\<rparr>)\<rparr>)
      else (ret, w))"

definition clk_smd_rpm_prepare :: "transport \<Rightarrow> nat \<Rightarrow> world \<Rightarrow> int \<times> world" where
  "clk_smd_rpm_prepare tr hw w =
     (let r = clks w hw;
          p = clks w (peer r)
      in if rate r = 0 then prepare_out hw 0 w
         else
           let (this_rate, this_sleep_rate) = to_active_sleep r (rate r);
               (peer_rate, peer_sleep_rate) =
                 (if enabled p then to_active_sleep p (rate p) else (0, 0));
               active_rate = max this_rate peer_rate;
               active_rate = (if branch r then not_not active_rate else active_rate);
               (ret, w1) = clk_smd_rpm_set_rate_active tr r active_rate w
           in if ret \<noteq> 0 then prepare_out hw ret w1
              else
                let sleep_rate = max this_sleep_rate peer_sleep_rate;
                    sleep_rate = (if branch r then not_not sleep_rate else sleep_rate);
                    (ret, w2) = clk_smd_rpm_set_rate_sleep tr r sleep_rate w1;
                    (ret, w3) =
                      (if ret \<noteq> 0 then clk_smd_rpm_set_rate_active tr r peer_rate w2
                       else (ret, w2))
                in prepare_out hw ret w3)"

text \<open>
  \<^verbatim>\<open>clk_smd_rpm_unprepare\<close> returns \<^verbatim>\<open>void\<close>: its local \<^verbatim>\<open>ret\<close> is dropped
  at \<^verbatim>\<open>out:\<close>, and the result is the world alone.
\<close>

definition clk_smd_rpm_unprepare :: "transport \<Rightarrow> nat \<Rightarrow> world \<Rightarrow> world" where
  "clk_smd_rpm_unprepare tr hw w =
     (let r = clks w hw;
          p = clks w (peer r)
      in if rate r = 0 then w
         else
           let (peer_rate, peer_sleep_rate) =
                 (if enabled p then to_active_sleep p (rate p) else (0, 0));
               active_rate = (if branch r then not_not peer_rate else peer_rate);
               (ret, w1) = clk_smd_rpm_set_rate_active tr r active_rate w
           in if ret \<noteq> 0 then w1
              else
                let sleep_rate = (if branch r then not_not peer_sleep_rate else peer_sleep_rate);
                    (ret, w2) = clk_smd_rpm_set_rate_sleep tr r sleep_rate w1
                in if ret \<noteq> 0 then w2
                   else w2\<lparr>clks := (clks w2)(hw := (clks w2 hw)\<lparr>enabled := False\<rparr>)\<rparr>)"

definition clk_smd_rpm_set_rate ::
  "transport \<Rightarrow> nat \<Rightarrow> ulong \<Rightarrow> ulong \<Rightarrow> world \<Rightarrow> int \<times> world" where
  "clk_smd_rpm_set_rate tr hw rt parent_rate w =
     (let r = clks w hw;
          p = clks w (peer r)
      in if \<not> enabled r then (0, w)
         else
           let (this_rate, this_sleep_rate) = to_active_sleep r rt;
               (peer_rate, peer_sleep_rate) =
                 (if enabled p then to_active_sleep p (rate p) else (0, 0));
               active_rate = max this_rate peer_rate;
               (ret, w1) = clk_smd_rpm_set_rate_active tr r active_rate w
           in if ret \<noteq> 0 then (ret, w1)
              else
                let sleep_rate = max this_sleep_rate peer_sleep_rate;
                    (ret, w2) = clk_smd_rpm_set_rate_sleep tr r sleep_rate w1
                in if ret \<noteq> 0 then (ret, w2)
                   else (ret, w2\<lparr>clks := (clks w2)(hw := (clks w2 hw)\<lparr>rate := rt\<rparr>)\<rparr>))"

subsection \<open>Enabling scaling\<close>

text \<open>
  \<^verbatim>\<open>clk_smd_rpm_enable_scaling\<close>. The constants \<^verbatim>\<open>QCOM_RPM_SMD_KEY_ENABLE\<close>,
  \<^verbatim>\<open>QCOM_SMD_RPM_MISC_CLK\<close> and \<^verbatim>\<open>QCOM_RPM_SCALING_ENABLE_ID\<close> are declared in
  headers outside the sources and are parameters here.
\<close>

record rpm_consts =
  QCOM_RPM_SMD_KEY_ENABLE :: u32
  QCOM_SMD_RPM_MISC_CLK :: u32
  QCOM_RPM_SCALING_ENABLE_ID :: u32

definition clk_smd_rpm_enable_scaling ::
  "transport \<Rightarrow> rpm_consts \<Rightarrow> nat \<Rightarrow> world \<Rightarrow> int \<times> world" where
  "clk_smd_rpm_enable_scaling tr c rpm_h w =
     (let req = \<lparr>req_key = cpu_to_le32 (QCOM_RPM_SMD_KEY_ENABLE c),
                 req_nbytes = cpu_to_le32 (of_nat sizeof_u32),
                 req_value = cpu_to_le32 1\<rparr>;
          (ret, w1) = qcom_rpm_smd_write tr
             \<lparr>w_rpm = rpm_h, w_state = QCOM_SMD_RPM_SLEEP_STATE,
              w_type = QCOM_SMD_RPM_MISC_CLK c, w_id = QCOM_RPM_SCALING_ENABLE_ID c,
              w_buf = req_bytes req, w_count = sizeof_req\<rparr> w
      in if ret \<noteq> 0 then (ret, w1)
         else
           let (ret, w2) = qcom_rpm_smd_write tr
                 \<lparr>w_rpm = rpm_h, w_state = QCOM_SMD_RPM_ACTIVE_STATE,
                  w_type = QCOM_SMD_RPM_MISC_CLK c, w_id = QCOM_RPM_SCALING_ENABLE_ID c,
                  w_buf = req_bytes req, w_count = sizeof_req\<rparr> w1
           in if ret \<noteq> 0 then (ret, w2) else (0, w2))"

section \<open>Vocabulary for the properties\<close>

text \<open>
  The definitions of this section are not taken from the source: they are the words in
  which the properties below are stated.
\<close>

subsection \<open>Reading the transport log\<close>

text \<open>The writes an operation has submitted: the log after it, without the log before it.\<close>

definition new_writes :: "world \<Rightarrow> world \<Rightarrow> smd_write list" where
  "new_writes w w' = drop (length (rpm_log w)) (rpm_log w')"

text \<open>The return codes the transport gives to a sequence of writes submitted after \<open>lg\<close>.\<close>

fun answers :: "transport \<Rightarrow> smd_write list \<Rightarrow> smd_write list \<Rightarrow> int list" where
  "answers tr lg [] = []"
| "answers tr lg (v # vs) = tr lg v # answers tr (lg @ [v]) vs"

subsection \<open>Reading a payload\<close>

text \<open>The number that four bytes hold when read as a little-endian 32-bit field.\<close>

definition le32_to_cpu :: "u8 list \<Rightarrow> nat" where
  "le32_to_cpu bs =
     unat (bs ! 0) + 256 * unat (bs ! 1) + 65536 * unat (bs ! 2) + 16777216 * unat (bs ! 3)"

definition payload_key :: "u8 list \<Rightarrow> nat" where
  "payload_key bs = le32_to_cpu (take 4 bs)"

definition payload_nbytes :: "u8 list \<Rightarrow> nat" where
  "payload_nbytes bs = le32_to_cpu (take 4 (drop 4 bs))"

definition payload_value :: "u8 list \<Rightarrow> nat" where
  "payload_value bs = le32_to_cpu (take 4 (drop 8 bs))"

subsection \<open>Votes and contributions\<close>

text \<open>The write by which handle \<open>r\<close> votes the rate \<open>rt\<close> in the context \<open>st\<close>.\<close>

definition rpm_vote :: "clk_smd_rpm \<Rightarrow> rpm_state \<Rightarrow> ulong \<Rightarrow> smd_write" where
  "rpm_vote r st rt =
     \<lparr>w_rpm = rpm r, w_state = st, w_type = rpm_res_type r, w_id = rpm_clk_id r,
      w_buf = cpu_to_le32 (rpm_key r) @ cpu_to_le32 4 @
              cpu_to_le32 (ucast (DIV_ROUND_UP rt 1000)),
      w_count = 12\<rparr>"

text \<open>
  What the peer of the handle at \<open>hw\<close> contributes to each context: its rate if it is
  enabled (and, for the sleep context, not active-only), else 0.
\<close>

definition peer_active :: "world \<Rightarrow> nat \<Rightarrow> ulong" where
  "peer_active w hw = (let p = clks w (peer (clks w hw)) in if enabled p then rate p else 0)"

definition peer_sleep :: "world \<Rightarrow> nat \<Rightarrow> ulong" where
  "peer_sleep w hw =
     (let p = clks w (peer (clks w hw))
      in if enabled p \<and> \<not> active_only p then rate p else 0)"

text \<open>What a handle asking for \<open>rt\<close> contributes to the sleep context.\<close>

definition own_sleep :: "clk_smd_rpm \<Rightarrow> ulong \<Rightarrow> ulong" where
  "own_sleep r rt = (if active_only r then 0 else rt)"

text \<open>The boolean presence of a rate, for a branch handle.\<close>

definition collapse :: "clk_smd_rpm \<Rightarrow> ulong \<Rightarrow> ulong" where
  "collapse r x = (if branch r then not_not x else x)"

subsection \<open>Concrete inputs\<close>

text \<open>
  A transport that answers the \<open>n\<close>-th write of a run with the \<open>n\<close>-th code of a
  script, and with success once the script is used up.
\<close>

definition scripted :: "int list \<Rightarrow> transport" where
  "scripted rets lg wr = (if length lg < length rets then rets ! length lg else 0)"

text \<open>
  Four handles shaped like entries of the msm8916 table: the branch pair
  \<^verbatim>\<open>xo\<close>/\<^verbatim>\<open>xo_a\<close> with its rate of 19200000 Hz, and the rate pair
  \<^verbatim>\<open>pcnoc_clk\<close>/\<^verbatim>\<open>pcnoc_a_clk\<close> whose rate has not been set. The second
  handle of a pair is active-only, and the two point at each other. The resource
  types and keys are example numbers. The handles sit at the addresses 0, 1, 2 and 3.
\<close>

definition xo :: clk_smd_rpm where
  "xo = \<lparr>rpm_res_type = 0x306b6c63, rpm_key = 0x62616e45, rpm_clk_id = 0,
         active_only = False, enabled = False, branch = True, peer = 1,
         rate = 19200000, rpm = 0\<rparr>"

definition xo_a :: clk_smd_rpm where
  "xo_a = \<lparr>rpm_res_type = 0x306b6c63, rpm_key = 0x62616e45, rpm_clk_id = 0,
           active_only = True, enabled = False, branch = True, peer = 0,
           rate = 19200000, rpm = 0\<rparr>"

definition pcnoc_clk :: clk_smd_rpm where
  "pcnoc_clk = \<lparr>rpm_res_type = 0x316b6c63, rpm_key = 0x007a484b, rpm_clk_id = 0,
                active_only = False, enabled = False, branch = False, peer = 3,
                rate = 0, rpm = 0\<rparr>"

definition pcnoc_a_clk :: clk_smd_rpm where
  "pcnoc_a_clk = \<lparr>rpm_res_type = 0x316b6c63, rpm_key = 0x007a484b, rpm_clk_id = 0,
                  active_only = True, enabled = False, branch = False, peer = 2,
                  rate = 0, rpm = 0\<rparr>"

definition msm8916 :: world where
  "msm8916 =
     \<lparr>clks = (\<lambda>_. pcnoc_clk)(0 := xo, 1 := xo_a, 3 := pcnoc_a_clk), rpm_log = []\<rparr>"

text \<open>
  The handles as they are once \<^verbatim>\<open>pcnoc_clk\<close> has been prepared (its rate is 0),
  once \<^verbatim>\<open>xo_a\<close> has been prepared, and once \<^verbatim>\<open>xo\<close> has been prepared as
  well; the log starts empty again, so that it shows the votes of one operation.
\<close>

definition pcnoc_on :: world where
  "pcnoc_on = msm8916\<lparr>clks := (clks msm8916)(2 := pcnoc_clk\<lparr>enabled := True\<rparr>)\<rparr>"

definition xo_a_on :: world where
  "xo_a_on = msm8916\<lparr>clks := (clks msm8916)(1 := xo_a\<lparr>enabled := True\<rparr>)\<rparr>"

definition xo_both_on :: world where
  "xo_both_on = xo_a_on\<lparr>clks := (clks xo_a_on)(0 := xo\<lparr>enabled := True\<rparr>)\<rparr>"

text \<open>Example values for the three constants of \<^verbatim>\<open>clk_smd_rpm_enable_scaling\<close>.\<close>

definition consts0 :: rpm_consts where
  "consts0 = \<lparr>QCOM_RPM_SMD_KEY_ENABLE = 0x62616e45, QCOM_SMD_RPM_MISC_CLK = 0x306b6c63,
              QCOM_RPM_SCALING_ENABLE_ID = 2\<rparr>"

section \<open>Auxiliary facts\<close>

lemmas example_defs = msm8916_def xo_def xo_a_def pcnoc_clk_def pcnoc_a_clk_def
  consts0_def scripted_def pcnoc_on_def xo_a_on_def xo_both_on_def

text \<open>The example worlds are reached by preparing the handles one after the other.\<close>

lemma example_worlds_reached:
  "snd (clk_smd_rpm_prepare (scripted []) 2 msm8916) = pcnoc_on"
  "clks (snd (clk_smd_rpm_prepare (scripted []) 1 msm8916)) = clks xo_a_on"
  "clks (snd (clk_smd_rpm_prepare (scripted []) 0 xo_a_on)) = clks xo_both_on"
  by (simp_all add: clk_smd_rpm_prepare_def prepare_out_def to_active_sleep_def
      clk_smd_rpm_set_rate_active_def clk_smd_rpm_set_rate_sleep_def qcom_rpm_smd_write_def
      example_defs Let_def)

subsection \<open>The senders submit exactly one vote\<close>

lemma set_rate_active_vote:
  "clk_smd_rpm_set_rate_active tr r rt w =
     (tr (rpm_log w) (rpm_vote r QCOM_SMD_RPM_ACTIVE_STATE rt),
      w\<lparr>rpm_log := rpm_log w @ [rpm_vote r QCOM_SMD_RPM_ACTIVE_STATE rt]\<rparr>)"
  by (simp add: clk_smd_rpm_set_rate_active_def qcom_rpm_smd_write_def rpm_vote_def
      req_bytes_def sizeof_req_def sizeof_u32_def)

lemma set_rate_sleep_vote:
  "clk_smd_rpm_set_rate_sleep tr r rt w =
     (tr (rpm_log w) (rpm_vote r QCOM_SMD_RPM_SLEEP_STATE rt),
      w\<lparr>rpm_log := rpm_log w @ [rpm_vote r QCOM_SMD_RPM_SLEEP_STATE rt]\<rparr>)"
  by (simp add: clk_smd_rpm_set_rate_sleep_def qcom_rpm_smd_write_def rpm_vote_def
      req_bytes_def sizeof_req_def sizeof_u32_def)

lemma w_state_rpm_vote: "w_state (rpm_vote r st rt) = st"
  by (simp add: rpm_vote_def)

lemmas op_simps = set_rate_active_vote set_rate_sleep_vote to_active_sleep_def
  prepare_out_def Let_def peer_active_def peer_sleep_def own_sleep_def collapse_def

subsection \<open>The callbacks, path by path\<close>

text \<open>
  Each callback is a decision list over the transport's answers. The case analysis on
  the flags of the handle and of its peer is done once, here.
\<close>

lemma prepare_flat:
  fixes tr hw w
  defines "r \<equiv> clks w hw"
  defines "av \<equiv> rpm_vote r QCOM_SMD_RPM_ACTIVE_STATE
                 (collapse r (max (rate r) (peer_active w hw)))"
  defines "sv \<equiv> rpm_vote r QCOM_SMD_RPM_SLEEP_STATE
                 (collapse r (max (own_sleep r (rate r)) (peer_sleep w hw)))"
  defines "cv \<equiv> rpm_vote r QCOM_SMD_RPM_ACTIVE_STATE (peer_active w hw)"
  defines "a \<equiv> tr (rpm_log w) av"
  defines "s \<equiv> tr (rpm_log w @ [av]) sv"
  defines "c \<equiv> tr (rpm_log w @ [av, sv]) cv"
  defines "on \<equiv> (clks w)(hw := r\<lparr>enabled := True\<rparr>)"
  shows "clk_smd_rpm_prepare tr hw w =
          (if rate r = 0 then (0, w\<lparr>clks := on\<rparr>)
           else if a \<noteq> 0 then (a, w\<lparr>rpm_log := rpm_log w @ [av]\<rparr>)
           else if s = 0 then (0, w\<lparr>clks := on, rpm_log := rpm_log w @ [av, sv]\<rparr>)
           else if c = 0 then (0, w\<lparr>clks := on, rpm_log := rpm_log w @ [av, sv, cv]\<rparr>)
           else (c, w\<lparr>rpm_log := rpm_log w @ [av, sv, cv]\<rparr>))"
  unfolding on_def c_def s_def a_def cv_def sv_def av_def r_def
  by (cases "active_only (clks w hw)"; cases "enabled (clks w (peer (clks w hw)))";
      cases "active_only (clks w (peer (clks w hw)))"; cases "branch (clks w hw)";
      simp add: clk_smd_rpm_prepare_def op_simps)

lemma unprepare_flat:
  fixes tr hw w
  defines "r \<equiv> clks w hw"
  defines "av \<equiv> rpm_vote r QCOM_SMD_RPM_ACTIVE_STATE (collapse r (peer_active w hw))"
  defines "sv \<equiv> rpm_vote r QCOM_SMD_RPM_SLEEP_STATE (collapse r (peer_sleep w hw))"
  defines "a \<equiv> tr (rpm_log w) av"
  defines "s \<equiv> tr (rpm_log w @ [av]) sv"
  shows "clk_smd_rpm_unprepare tr hw w =
          (if rate r = 0 then w
           else if a \<noteq> 0 then w\<lparr>rpm_log := rpm_log w @ [av]\<rparr>
           else if s \<noteq> 0 then w\<lparr>rpm_log := rpm_log w @ [av, sv]\<rparr>
           else w\<lparr>clks := (clks w)(hw := r\<lparr>enabled := False\<rparr>),
                  rpm_log := rpm_log w @ [av, sv]\<rparr>)"
  unfolding s_def a_def sv_def av_def r_def
  by (cases "enabled (clks w (peer (clks w hw)))";
      cases "active_only (clks w (peer (clks w hw)))"; cases "branch (clks w hw)";
      simp add: clk_smd_rpm_unprepare_def op_simps)

lemma set_rate_flat:
  fixes tr hw rt parent_rate w
  defines "r \<equiv> clks w hw"
  defines "av \<equiv> rpm_vote r QCOM_SMD_RPM_ACTIVE_STATE (max rt (peer_active w hw))"
  defines "sv \<equiv> rpm_vote r QCOM_SMD_RPM_SLEEP_STATE
                 (max (own_sleep r rt) (peer_sleep w hw))"
  defines "a \<equiv> tr (rpm_log w) av"
  defines "s \<equiv> tr (rpm_log w @ [av]) sv"
  shows "clk_smd_rpm_set_rate tr hw rt parent_rate w =
          (if \<not> enabled r then (0, w)
           else if a \<noteq> 0 then (a, w\<lparr>rpm_log := rpm_log w @ [av]\<rparr>)
           else if s \<noteq> 0 then (s, w\<lparr>rpm_log := rpm_log w @ [av, sv]\<rparr>)
           else (0, w\<lparr>clks := (clks w)(hw := r\<lparr>rate := rt\<rparr>),
                      rpm_log := rpm_log w @ [av, sv]\<rparr>))"
  unfolding s_def a_def sv_def av_def r_def
  by (cases "active_only (clks w hw)"; cases "enabled (clks w (peer (clks w hw)))";
      cases "active_only (clks w (peer (clks w hw)))";
      simp add: clk_smd_rpm_set_rate_def op_simps)

text \<open>The votes each callback submits.\<close>

lemma prepare_writes:
  fixes tr hw w
  defines "r \<equiv> clks w hw"
  defines "av \<equiv> rpm_vote r QCOM_SMD_RPM_ACTIVE_STATE
                 (collapse r (max (rate r) (peer_active w hw)))"
  defines "sv \<equiv> rpm_vote r QCOM_SMD_RPM_SLEEP_STATE
                 (collapse r (max (own_sleep r (rate r)) (peer_sleep w hw)))"
  defines "cv \<equiv> rpm_vote r QCOM_SMD_RPM_ACTIVE_STATE (peer_active w hw)"
  shows "new_writes w (snd (clk_smd_rpm_prepare tr hw w)) =
          (if rate r = 0 then []
           else if tr (rpm_log w) av \<noteq> 0 then [av]
           else if tr (rpm_log w @ [av]) sv = 0 then [av, sv]
           else [av, sv, cv])"
  unfolding cv_def sv_def av_def r_def
  by (simp add: prepare_flat new_writes_def)

lemma unprepare_writes:
  fixes tr hw w
  defines "r \<equiv> clks w hw"
  defines "av \<equiv> rpm_vote r QCOM_SMD_RPM_ACTIVE_STATE (collapse r (peer_active w hw))"
  defines "sv \<equiv> rpm_vote r QCOM_SMD_RPM_SLEEP_STATE (collapse r (peer_sleep w hw))"
  shows "new_writes w (clk_smd_rpm_unprepare tr hw w) =
          (if rate r = 0 then []
           else if tr (rpm_log w) av \<noteq> 0 then [av]
           else [av, sv])"
  unfolding sv_def av_def r_def
  by (simp add: unprepare_flat new_writes_def)

lemma set_rate_writes:
  fixes tr hw rt parent_rate w
  defines "r \<equiv> clks w hw"
  defines "av \<equiv> rpm_vote r QCOM_SMD_RPM_ACTIVE_STATE (max rt (peer_active w hw))"
  defines "sv \<equiv> rpm_vote r QCOM_SMD_RPM_SLEEP_STATE
                 (max (own_sleep r rt) (peer_sleep w hw))"
  shows "new_writes w (snd (clk_smd_rpm_set_rate tr hw rt parent_rate w)) =
          (if \<not> enabled r then []
           else if tr (rpm_log w) av \<noteq> 0 then [av]
           else [av, sv])"
  unfolding sv_def av_def r_def
  by (simp add: set_rate_flat new_writes_def)

lemmas eval_simps = prepare_flat unprepare_flat set_rate_flat example_defs new_writes_def
  w_state_rpm_vote peer_active_def peer_sleep_def own_sleep_def collapse_def not_not_def
  Let_def

subsection \<open>Little-endian fields and rounding\<close>

lemma le_bytes_sum:
  fixes n :: nat
  assumes "n < 4294967296"
  shows "n mod 256 + 256 * (n div 256 mod 256) + 65536 * (n div 65536 mod 256)
        + 16777216 * (n div 16777216 mod 256) = n"
proof -
  have a: "n = n mod 256 + 256 * (n div 256)" by simp
  have "n div 65536 = n div 256 div 256" by (simp add: div_mult2_eq)
  then have b: "n div 256 = n div 256 mod 256 + 256 * (n div 65536)" by simp
  have "n div 16777216 = n div 65536 div 256" by (simp add: div_mult2_eq)
  then have c: "n div 65536 = n div 65536 mod 256 + 256 * (n div 16777216)" by simp
  have "n div 16777216 < 256" using assms by simp
  then have d: "n div 16777216 mod 256 = n div 16777216" by simp
  show ?thesis using a b c d by linarith
qed

lemma le32_roundtrip: "le32_to_cpu (cpu_to_le32 x) = unat x"
proof -
  have b: "unat x < 4294967296" using unsigned_less [of x] by simp
  have b0: "unat (ucast x :: u8) = unat x mod 256"
    by (simp add: unsigned_ucast_eq take_bit_eq_mod)
  have b1: "unat (ucast (drop_bit 8 x) :: u8) = unat x div 256 mod 256"
    by (simp add: unsigned_ucast_eq take_bit_eq_mod unat_drop_bit_eq drop_bit_eq_div unat_div)
  have b2: "unat (ucast (drop_bit 16 x) :: u8) = unat x div 65536 mod 256"
    by (simp add: unsigned_ucast_eq take_bit_eq_mod unat_drop_bit_eq drop_bit_eq_div unat_div)
  have b3: "unat (ucast (drop_bit 24 x) :: u8) = unat x div 16777216 mod 256"
    by (simp add: unsigned_ucast_eq take_bit_eq_mod unat_drop_bit_eq drop_bit_eq_div unat_div)
  have "le32_to_cpu (cpu_to_le32 x) =
        unat x mod 256 + 256 * (unat x div 256 mod 256) + 65536 * (unat x div 65536 mod 256)
        + 16777216 * (unat x div 16777216 mod 256)"
    unfolding le32_to_cpu_def cpu_to_le32_def
    by (simp only: b0 b1 b2 b3 nth_Cons_0 nth_Cons_numeral nth_Cons_Suc One_nat_def
        numeral_2_eq_2 numeral_3_eq_3)
  then show ?thesis by (simp only: le_bytes_sum [OF b])
qed

lemma length_cpu_to_le32: "length (cpu_to_le32 x) = 4"
  by (simp add: cpu_to_le32_def)

lemma payload_fields:
  "payload_key (cpu_to_le32 k @ cpu_to_le32 n @ cpu_to_le32 v) = unat k"
  "payload_nbytes (cpu_to_le32 k @ cpu_to_le32 n @ cpu_to_le32 v) = unat n"
  "payload_value (cpu_to_le32 k @ cpu_to_le32 n @ cpu_to_le32 v) = unat v"
  by (simp_all add: payload_key_def payload_nbytes_def payload_value_def
      length_cpu_to_le32 le32_roundtrip)

lemma ceil_div_1000: "nat \<lceil>real n / 1000\<rceil> = (n + 999) div 1000"
  by linarith

text \<open>
  \<^verbatim>\<open>DIV_ROUND_UP(n, 1000)\<close> is the ceiling of \<open>n / 1000\<close> as long as \<open>n + 999\<close> does
  not wrap, and the conversion to \<^verbatim>\<open>u32\<close> keeps it as long as it fits 32 bits.
\<close>

lemma DIV_ROUND_UP_1000:
  assumes "unat n \<le> 18446744073709550616"
  shows "unat (DIV_ROUND_UP n 1000) = (unat n + 999) div 1000"
proof -
  have e: "n + 1000 - 1 = n + 999" by simp
  have "unat n + unat (999 :: ulong) < 2 ^ LENGTH(64)" using assms by simp
  then have "unat (n + 999) = unat n + unat (999 :: ulong)"
    by (simp only: unat_add_lem)
  then have "unat (n + 999) = unat n + 999" by simp
  then show ?thesis
    unfolding DIV_ROUND_UP_def e by (simp only: unat_div) simp
qed

lemma div_round_up_khz:
  assumes "unat n \<le> 4294967295000"
  shows "unat (ucast (DIV_ROUND_UP n 1000) :: u32) = (unat n + 999) div 1000"
proof -
  have "unat (DIV_ROUND_UP n 1000) = (unat n + 999) div 1000"
    using assms by (intro DIV_ROUND_UP_1000) simp
  moreover have "(unat n + 999) div 1000 < 4294967296" using assms by simp
  ultimately show ?thesis
    by (simp add: unsigned_ucast_eq take_bit_eq_mod)
qed

subsection \<open>What each callback does to the enabled flag\<close>

lemma enabled_prepare:
  fixes tr hw w
  defines "pre \<equiv> clk_smd_rpm_prepare tr hw w"
  defines "ap \<equiv> answers tr (rpm_log w) (new_writes w (snd pre))"
  shows "(ap = [] \<or> ap = [0, 0] \<longrightarrow> fst pre = 0 \<and> enabled (clks (snd pre) hw)) \<and>
         (fst pre \<noteq> 0 \<longrightarrow> clks (snd pre) = clks w) \<and>
         (\<forall>h. h \<noteq> hw \<longrightarrow> clks (snd pre) h = clks w h)"
  unfolding ap_def pre_def prepare_writes
  by (simp add: prepare_flat)

lemma enabled_unprepare:
  fixes tr hw w
  defines "un \<equiv> clk_smd_rpm_unprepare tr hw w"
  defines "au \<equiv> answers tr (rpm_log w) (new_writes w un)"
  shows "(\<forall>h. enabled (clks un h) \<longrightarrow> enabled (clks w h)) \<and>
         (au = [0, 0] \<longrightarrow> \<not> enabled (clks un hw)) \<and>
         (rate (clks w hw) = 0 \<longrightarrow> un = w) \<and>
         (au \<noteq> [] \<and> last au \<noteq> 0 \<longrightarrow> clks un = clks w)"
  unfolding au_def un_def unprepare_writes
  by (simp add: unprepare_flat)

lemma enabled_set_rate:
  "enabled (clks (snd (clk_smd_rpm_set_rate tr hw rt parent_rate w)) h) = enabled (clks w h)"
  by (simp add: set_rate_flat)

subsection \<open>What each callback does with the transport's answers\<close>

lemma propagate_set_rate:
  fixes tr hw rt parent_rate w
  defines "sr \<equiv> clk_smd_rpm_set_rate tr hw rt parent_rate w"
  defines "asr \<equiv> answers tr (rpm_log w) (new_writes w (snd sr))"
  shows "length asr \<le> 2 \<and> (\<forall>a\<in>set (butlast asr). a = 0) \<and>
         fst sr = (if asr = [] then 0 else last asr)"
  unfolding asr_def sr_def set_rate_writes
  by (simp add: set_rate_flat)

lemma propagate_prepare:
  fixes tr hw w
  defines "pre \<equiv> clk_smd_rpm_prepare tr hw w"
  defines "ap \<equiv> answers tr (rpm_log w) (new_writes w (snd pre))"
  shows "length ap \<le> 3 \<and>
         (ap \<noteq> [] \<and> hd ap \<noteq> 0 \<longrightarrow> length ap = 1 \<and> fst pre = hd ap) \<and>
         (length ap = 3 \<longleftrightarrow> 2 \<le> length ap \<and> ap ! 1 \<noteq> 0)"
  unfolding ap_def pre_def prepare_writes
  by (simp add: prepare_flat)

lemma propagate_unprepare:
  fixes tr hw w
  defines "un \<equiv> clk_smd_rpm_unprepare tr hw w"
  defines "au \<equiv> answers tr (rpm_log w) (new_writes w un)"
  shows "length au \<le> 2 \<and> (\<forall>a\<in>set (butlast au). a = 0) \<and>
         (au \<noteq> [] \<and> last au \<noteq> 0 \<longrightarrow> clks un = clks w)"
  unfolding au_def un_def unprepare_writes
  by (simp add: unprepare_flat)

subsection \<open>The contexts of the votes in order\<close>

lemma order_prepare:
  fixes tr hw w
  defines "wp \<equiv> new_writes w (snd (clk_smd_rpm_prepare tr hw w))"
  shows "map w_state wp = take (length wp)
           [QCOM_SMD_RPM_ACTIVE_STATE, QCOM_SMD_RPM_SLEEP_STATE, QCOM_SMD_RPM_ACTIVE_STATE] \<and>
         (1 < length wp \<longrightarrow> tr (rpm_log w) (hd wp) = 0)"
  unfolding wp_def prepare_writes
  by (simp add: w_state_rpm_vote)

lemma order_unprepare:
  fixes tr hw w
  defines "wu \<equiv> new_writes w (clk_smd_rpm_unprepare tr hw w)"
  shows "map w_state wu = take (length wu) [QCOM_SMD_RPM_ACTIVE_STATE, QCOM_SMD_RPM_SLEEP_STATE] \<and>
         (1 < length wu \<longrightarrow> tr (rpm_log w) (hd wu) = 0)"
  unfolding wu_def unprepare_writes
  by (simp add: w_state_rpm_vote)

lemma order_set_rate:
  fixes tr hw rt parent_rate w
  defines "wsr \<equiv> new_writes w (snd (clk_smd_rpm_set_rate tr hw rt parent_rate w))"
  shows "map w_state wsr = take (length wsr) [QCOM_SMD_RPM_ACTIVE_STATE, QCOM_SMD_RPM_SLEEP_STATE] \<and>
         (1 < length wsr \<longrightarrow> tr (rpm_log w) (hd wsr) = 0)"
  unfolding wsr_def set_rate_writes
  by (simp add: w_state_rpm_vote)

section \<open>The properties\<close>

subsection \<open>C1: a failed sleep vote in prepare\<close>

text \<open>
  C1 says that when, in prepare, the active vote succeeds and the sleep vote fails
  with an error \<open>e\<close>, one compensating active vote is submitted, prepare returns
  \<open>e\<close> whatever the compensating vote's outcome, and \<open>enabled\<close> stays false.
  The source assigns the outcome of the compensating vote to \<^verbatim>\<open>ret\<close>, the variable
  that holds \<open>e\<close>, and falls through to \<^verbatim>\<open>out:\<close>. Running prepare on \<open>xo\<close>
  (rate 19200000 Hz, not enabled, peer not enabled) with a transport that accepts the
  active vote, refuses the sleep vote with -5 and accepts the compensating vote: the
  three votes are submitted in the order active, sleep, active, prepare returns 0,
  not -5, and \<open>enabled\<close> is true. With a transport that refuses the compensating
  vote with -110, prepare returns -110, not -5.
\<close>

theorem prepare_sleep_failure_masked:
  "answers (scripted [0, - 5, 0]) []
     (rpm_log (snd (clk_smd_rpm_prepare (scripted [0, - 5, 0]) 0 msm8916))) = [0, - 5, 0] \<and>
   map w_state (rpm_log (snd (clk_smd_rpm_prepare (scripted [0, - 5, 0]) 0 msm8916))) =
     [QCOM_SMD_RPM_ACTIVE_STATE, QCOM_SMD_RPM_SLEEP_STATE, QCOM_SMD_RPM_ACTIVE_STATE] \<and>
   fst (clk_smd_rpm_prepare (scripted [0, - 5, 0]) 0 msm8916) = 0 \<and>
   enabled (clks (snd (clk_smd_rpm_prepare (scripted [0, - 5, 0]) 0 msm8916)) 0) \<and>
   fst (clk_smd_rpm_prepare (scripted [0, - 5, - 110]) 0 msm8916) = - 110"
  by (simp add: prepare_flat example_defs w_state_rpm_vote)

subsection \<open>C2: the enabled flag over the lifecycle\<close>

text \<open>
  C2 says that \<open>enabled\<close> becomes true only when a prepare fully succeeds, and is
  false again after every fully succeeded unprepare, also for a handle whose
  requested rate is 0, and after every fully failed prepare. The source leaves
  unprepare at \<^verbatim>\<open>if (!r->rate) goto out;\<close>, before \<^verbatim>\<open>r->enabled = false\<close>:
  \<open>pcnoc_clk\<close>, whose rate is 0, is enabled by prepare, and after an unprepare that
  submits no vote and meets no failure it is still enabled.
\<close>

theorem unprepare_rate_zero_stays_enabled:
  "rate (clks pcnoc_on 2) = 0 \<and> enabled (clks pcnoc_on 2) \<and>
   new_writes pcnoc_on (clk_smd_rpm_unprepare (scripted []) 2 pcnoc_on) = [] \<and>
   enabled (clks (clk_smd_rpm_unprepare (scripted []) 2 pcnoc_on) 2)"
  by (simp add: eval_simps)

text \<open>
  C2 as amended. Among the three callbacks only prepare turns \<open>enabled\<close> on, and only
  for its own handle and only when it returns 0: a prepare that returns an error
  changes no handle, a prepare changes no other handle, unprepare never turns a flag on
  and set-rate changes no flag. A prepare that submits no vote (requested rate 0) or
  whose two votes both succeed returns 0 and leaves \<open>enabled\<close> true. An unprepare
  whose two votes both succeed leaves \<open>enabled\<close> false; an unprepare of a handle
  whose requested rate is 0 changes nothing, so \<open>enabled\<close> stays as it was; an
  unprepare one of whose votes fails changes no handle. (What \<open>enabled\<close> is after a
  prepare whose sleep vote fails is the subject of C1 and is left open here.)
\<close>

theorem enabled_lifecycle:
  fixes tr hw rt parent_rate w
  defines "pre \<equiv> clk_smd_rpm_prepare tr hw w"
  defines "ap \<equiv> answers tr (rpm_log w) (new_writes w (snd pre))"
  defines "un \<equiv> clk_smd_rpm_unprepare tr hw w"
  defines "au \<equiv> answers tr (rpm_log w) (new_writes w un)"
  defines "sr \<equiv> clk_smd_rpm_set_rate tr hw rt parent_rate w"
  shows "(ap = [] \<or> ap = [0, 0] \<longrightarrow> fst pre = 0 \<and> enabled (clks (snd pre) hw)) \<and>
         (fst pre \<noteq> 0 \<longrightarrow> clks (snd pre) = clks w) \<and>
         (\<forall>h. h \<noteq> hw \<longrightarrow> clks (snd pre) h = clks w h) \<and>
         (\<forall>h. enabled (clks un h) \<longrightarrow> enabled (clks w h)) \<and>
         (au = [0, 0] \<longrightarrow> \<not> enabled (clks un hw)) \<and>
         (rate (clks w hw) = 0 \<longrightarrow> un = w) \<and>
         (au \<noteq> [] \<and> last au \<noteq> 0 \<longrightarrow> clks un = clks w) \<and>
         (\<forall>h. enabled (clks (snd sr) h) = enabled (clks w h))"
  unfolding ap_def pre_def au_def un_def sr_def
  using enabled_prepare [where tr = tr and hw = hw and w = w]
    enabled_unprepare [where tr = tr and hw = hw and w = w]
    enabled_set_rate [where tr = tr and hw = hw and w = w and rt = rt
      and parent_rate = parent_rate]
  by blast

theorem enabled_lifecycle_witness:
  "answers (scripted []) (rpm_log xo_a_on)
     (new_writes xo_a_on (snd (clk_smd_rpm_prepare (scripted []) 0 xo_a_on))) = [0, 0] \<and>
   fst (clk_smd_rpm_prepare (scripted []) 0 xo_a_on) = 0 \<and>
   enabled (clks (snd (clk_smd_rpm_prepare (scripted []) 0 xo_a_on)) 0) \<and>
   clks (snd (clk_smd_rpm_prepare (scripted []) 0 xo_a_on)) 1 = clks xo_a_on 1 \<and>
   fst (clk_smd_rpm_prepare (scripted [- 5]) 0 msm8916) \<noteq> 0 \<and>
   clks (snd (clk_smd_rpm_prepare (scripted [- 5]) 0 msm8916)) = clks msm8916 \<and>
   answers (scripted []) (rpm_log xo_both_on)
     (new_writes xo_both_on (clk_smd_rpm_unprepare (scripted []) 0 xo_both_on)) = [0, 0] \<and>
   \<not> enabled (clks (clk_smd_rpm_unprepare (scripted []) 0 xo_both_on) 0) \<and>
   enabled (clks (clk_smd_rpm_unprepare (scripted []) 0 xo_both_on) 1) \<and>
   enabled (clks xo_both_on 1) \<and>
   rate (clks pcnoc_on 2) = 0 \<and>
   clk_smd_rpm_unprepare (scripted []) 2 pcnoc_on = pcnoc_on \<and>
   last (answers (scripted [0, - 5]) (rpm_log xo_both_on)
     (new_writes xo_both_on (clk_smd_rpm_unprepare (scripted [0, - 5]) 0 xo_both_on))) = - 5 \<and>
   clks (clk_smd_rpm_unprepare (scripted [0, - 5]) 0 xo_both_on) = clks xo_both_on"
proof -
  let ?au = "answers (scripted [0, - 5]) (rpm_log xo_both_on)
     (new_writes xo_both_on (clk_smd_rpm_unprepare (scripted [0, - 5]) 0 xo_both_on))"
  have h1: "answers (scripted []) (rpm_log xo_a_on)
      (new_writes xo_a_on (snd (clk_smd_rpm_prepare (scripted []) 0 xo_a_on))) = [0, 0]"
    by (simp add: eval_simps)
  have h2: "fst (clk_smd_rpm_prepare (scripted [- 5]) 0 msm8916) \<noteq> 0"
    by (simp add: eval_simps)
  have h3: "answers (scripted []) (rpm_log xo_both_on)
      (new_writes xo_both_on (clk_smd_rpm_unprepare (scripted []) 0 xo_both_on)) = [0, 0]"
    by (simp add: eval_simps)
  have h4: "rate (clks pcnoc_on 2) = 0"
    by (simp add: example_defs)
  have h5: "?au \<noteq> [] \<and> last ?au = - 5"
    by (simp add: eval_simps)
  have h6: "enabled (clks (clk_smd_rpm_unprepare (scripted []) 0 xo_both_on) 1)"
    by (simp add: eval_simps)
  have c1: "fst (clk_smd_rpm_prepare (scripted []) 0 xo_a_on) = 0 \<and>
      enabled (clks (snd (clk_smd_rpm_prepare (scripted []) 0 xo_a_on)) 0) \<and>
      clks (snd (clk_smd_rpm_prepare (scripted []) 0 xo_a_on)) 1 = clks xo_a_on 1"
    using h1 enabled_lifecycle [where tr = "scripted []" and hw = 0 and w = xo_a_on
        and rt = 0 and parent_rate = 0]
    by simp
  have c2: "clks (snd (clk_smd_rpm_prepare (scripted [- 5]) 0 msm8916)) = clks msm8916"
    using h2 enabled_lifecycle [where tr = "scripted [- 5]" and hw = 0 and w = msm8916
        and rt = 0 and parent_rate = 0]
    by blast
  have c3: "\<not> enabled (clks (clk_smd_rpm_unprepare (scripted []) 0 xo_both_on) 0) \<and>
      enabled (clks xo_both_on 1)"
    using h3 h6 enabled_lifecycle [where tr = "scripted []" and hw = 0 and w = xo_both_on
        and rt = 0 and parent_rate = 0]
    by blast
  have c4: "clk_smd_rpm_unprepare (scripted []) 2 pcnoc_on = pcnoc_on"
    using h4 enabled_lifecycle [where tr = "scripted []" and hw = 2 and w = pcnoc_on
        and rt = 0 and parent_rate = 0]
    by blast
  have c5: "clks (clk_smd_rpm_unprepare (scripted [0, - 5]) 0 xo_both_on) = clks xo_both_on"
    using h5 enabled_lifecycle [where tr = "scripted [0, - 5]" and hw = 0 and w = xo_both_on
        and rt = 0 and parent_rate = 0]
    by simp
  show ?thesis using h1 h2 h3 h4 h5 h6 c1 c2 c3 c4 c5 by simp
qed

subsection \<open>C3: what becomes of a failed vote\<close>

text \<open>
  C3 says that every lifecycle operation returns the transport error of a failed
  vote verbatim to its caller, and that unprepare in particular reports a failed
  vote. \<^verbatim>\<open>clk_smd_rpm_unprepare\<close> returns \<^verbatim>\<open>void\<close>: on the enabled handle
  \<open>xo\<close>, an unprepare whose active vote is refused with -5 and one whose active
  vote is refused with -22 hand back the very same result, so the caller cannot
  learn the error. And the prepare of C1, whose sleep vote is refused with -5,
  returns 0.
\<close>

theorem vote_failure_not_always_reported:
  "answers (scripted [- 5]) (rpm_log xo_both_on)
     (new_writes xo_both_on (clk_smd_rpm_unprepare (scripted [- 5]) 0 xo_both_on)) = [- 5] \<and>
   answers (scripted [- 22]) (rpm_log xo_both_on)
     (new_writes xo_both_on (clk_smd_rpm_unprepare (scripted [- 22]) 0 xo_both_on)) = [- 22] \<and>
   clk_smd_rpm_unprepare (scripted [- 5]) 0 xo_both_on =
     clk_smd_rpm_unprepare (scripted [- 22]) 0 xo_both_on \<and>
   answers (scripted [0, - 5, 0]) (rpm_log msm8916)
     (new_writes msm8916 (snd (clk_smd_rpm_prepare (scripted [0, - 5, 0]) 0 msm8916))) =
     [0, - 5, 0] \<and>
   fst (clk_smd_rpm_prepare (scripted [0, - 5, 0]) 0 msm8916) = 0"
  by (simp add: eval_simps)

text \<open>
  C3 as amended. Set-rate submits at most two votes, every vote before the last one
  it submits has succeeded, and it returns the answer to the last one: the error of
  the first vote that fails, verbatim, with nothing submitted after it (and 0 when
  no vote is submitted). Prepare submits at most three votes; when its active vote
  fails it submits nothing more and returns that error verbatim; it submits a third
  vote, the compensating one, exactly when its sleep vote has failed, and once only.
  Unprepare returns nothing to its caller; it submits at most two votes, every vote
  before the last one has succeeded, and when the last one fails no handle is
  changed. No vote is submitted a second time.
\<close>

theorem vote_error_propagation:
  fixes tr hw rt parent_rate w
  defines "sr \<equiv> clk_smd_rpm_set_rate tr hw rt parent_rate w"
  defines "asr \<equiv> answers tr (rpm_log w) (new_writes w (snd sr))"
  defines "pre \<equiv> clk_smd_rpm_prepare tr hw w"
  defines "ap \<equiv> answers tr (rpm_log w) (new_writes w (snd pre))"
  defines "un \<equiv> clk_smd_rpm_unprepare tr hw w"
  defines "au \<equiv> answers tr (rpm_log w) (new_writes w un)"
  shows "length asr \<le> 2 \<and> (\<forall>a\<in>set (butlast asr). a = 0) \<and>
         fst sr = (if asr = [] then 0 else last asr) \<and>
         length ap \<le> 3 \<and>
         (ap \<noteq> [] \<and> hd ap \<noteq> 0 \<longrightarrow> length ap = 1 \<and> fst pre = hd ap) \<and>
         (length ap = 3 \<longleftrightarrow> 2 \<le> length ap \<and> ap ! 1 \<noteq> 0) \<and>
         length au \<le> 2 \<and> (\<forall>a\<in>set (butlast au). a = 0) \<and>
         (au \<noteq> [] \<and> last au \<noteq> 0 \<longrightarrow> clks un = clks w)"
  unfolding asr_def sr_def ap_def pre_def au_def un_def
  using propagate_set_rate [where tr = tr and hw = hw and w = w and rt = rt
      and parent_rate = parent_rate]
    propagate_prepare [where tr = tr and hw = hw and w = w]
    propagate_unprepare [where tr = tr and hw = hw and w = w]
  by blast

theorem vote_error_propagation_witness:
  "answers (scripted [- 22]) (rpm_log xo_a_on)
     (new_writes xo_a_on (snd (clk_smd_rpm_prepare (scripted [- 22]) 0 xo_a_on))) \<noteq> [] \<and>
   hd (answers (scripted [- 22]) (rpm_log xo_a_on)
     (new_writes xo_a_on (snd (clk_smd_rpm_prepare (scripted [- 22]) 0 xo_a_on)))) = - 22 \<and>
   fst (clk_smd_rpm_prepare (scripted [- 22]) 0 xo_a_on) = - 22 \<and>
   answers (scripted [0, - 5]) (rpm_log xo_both_on)
     (new_writes xo_both_on (clk_smd_rpm_unprepare (scripted [0, - 5]) 0 xo_both_on)) =
     [0, - 5] \<and>
   clks (clk_smd_rpm_unprepare (scripted [0, - 5]) 0 xo_both_on) = clks xo_both_on \<and>
   answers (scripted [0, - 5]) (rpm_log xo_both_on)
     (new_writes xo_both_on
        (snd (clk_smd_rpm_set_rate (scripted [0, - 5]) 0 19200000 0 xo_both_on))) =
     [0, - 5] \<and>
   fst (clk_smd_rpm_set_rate (scripted [0, - 5]) 0 19200000 0 xo_both_on) = - 5"
proof -
  let ?ap = "answers (scripted [- 22]) (rpm_log xo_a_on)
     (new_writes xo_a_on (snd (clk_smd_rpm_prepare (scripted [- 22]) 0 xo_a_on)))"
  let ?au = "answers (scripted [0, - 5]) (rpm_log xo_both_on)
     (new_writes xo_both_on (clk_smd_rpm_unprepare (scripted [0, - 5]) 0 xo_both_on))"
  let ?asr = "answers (scripted [0, - 5]) (rpm_log xo_both_on)
     (new_writes xo_both_on
        (snd (clk_smd_rpm_set_rate (scripted [0, - 5]) 0 19200000 0 xo_both_on)))"
  have h1: "?ap \<noteq> [] \<and> hd ?ap = - 22"
    by (simp add: eval_simps)
  have h2: "?au = [0, - 5]"
    by (simp add: eval_simps)
  have h3: "?asr = [0, - 5]"
    by (simp add: eval_simps)
  have c1: "fst (clk_smd_rpm_prepare (scripted [- 22]) 0 xo_a_on) = hd ?ap"
    using h1 vote_error_propagation [where tr = "scripted [- 22]" and hw = 0 and w = xo_a_on
        and rt = 0 and parent_rate = 0]
    by simp
  have c2: "clks (clk_smd_rpm_unprepare (scripted [0, - 5]) 0 xo_both_on) = clks xo_both_on"
    using h2 vote_error_propagation [where tr = "scripted [0, - 5]" and hw = 0
        and w = xo_both_on and rt = 19200000 and parent_rate = 0]
    by simp
  have c3: "fst (clk_smd_rpm_set_rate (scripted [0, - 5]) 0 19200000 0 xo_both_on) = last ?asr"
    using h3 vote_error_propagation [where tr = "scripted [0, - 5]" and hw = 0
        and w = xo_both_on and rt = 19200000 and parent_rate = 0]
    by simp
  show ?thesis using h1 h2 h3 c1 c2 c3 by simp
qed

subsection \<open>C4: the value of the compensating vote\<close>

text \<open>
  C4 says that the compensating active vote of prepare encodes the peer's active
  rate if the peer is enabled, else 0, collapsed to 0 or 1 for a branch handle. The
  source passes \<^verbatim>\<open>peer_rate\<close> itself, while unprepare passes
  \<^verbatim>\<open>r->branch ? !!peer_rate : peer_rate\<close>. Preparing the branch handle \<open>xo\<close>
  while its peer \<open>xo_a\<close> is enabled at 19200000 Hz, over a transport that refuses
  the sleep vote with -5: the votes carry the values 1 (active), 1 (sleep) and
  19200 (compensating), not 1. The unprepare of \<open>xo\<close>, once both handles are
  enabled, votes the same peer's contribution as 1 (active) and 0 (sleep).
\<close>

theorem prepare_undo_vote_not_collapsed:
  "branch (clks xo_a_on 0) \<and> enabled (clks xo_a_on 1) \<and> rate (clks xo_a_on 1) = 19200000 \<and>
   map w_state (new_writes xo_a_on
      (snd (clk_smd_rpm_prepare (scripted [0, - 5, 0]) 0 xo_a_on))) =
     [QCOM_SMD_RPM_ACTIVE_STATE, QCOM_SMD_RPM_SLEEP_STATE, QCOM_SMD_RPM_ACTIVE_STATE] \<and>
   map (\<lambda>v. payload_value (w_buf v)) (new_writes xo_a_on
      (snd (clk_smd_rpm_prepare (scripted [0, - 5, 0]) 0 xo_a_on))) = [1, 1, 19200] \<and>
   map (\<lambda>v. payload_value (w_buf v)) (new_writes xo_both_on
      (clk_smd_rpm_unprepare (scripted []) 0 xo_both_on)) = [1, 0]"
  by (simp add: eval_simps rpm_vote_def payload_fields DIV_ROUND_UP_def)

subsection \<open>C5: set-rate commits the rate only after both votes\<close>

text \<open>
  C5: on an enabled handle, set-rate votes from the candidate rate and the peer's
  present state: the active vote carries the maximum of the candidate rate and the
  peer's rate (0 if the peer is not enabled), the sleep vote the maximum of the
  candidate rate (0 if the handle is active-only) and the peer's rate (0 if the peer
  is not enabled or is active-only). The sleep vote is submitted only after the
  active vote has succeeded. The handle's rate becomes the candidate rate if and only
  if both votes succeed; if either fails, no handle changes and the error of that
  vote is returned.
\<close>

theorem set_rate_commit:
  fixes tr hw rt parent_rate w
  defines "r \<equiv> clks w hw"
  defines "p \<equiv> clks w (peer r)"
  defines "av \<equiv> rpm_vote r QCOM_SMD_RPM_ACTIVE_STATE (max rt (if enabled p then rate p else 0))"
  defines "sv \<equiv> rpm_vote r QCOM_SMD_RPM_SLEEP_STATE
                 (max (if active_only r then 0 else rt)
                      (if enabled p \<and> \<not> active_only p then rate p else 0))"
  defines "a \<equiv> tr (rpm_log w) av"
  defines "s \<equiv> tr (rpm_log w @ [av]) sv"
  defines "res \<equiv> clk_smd_rpm_set_rate tr hw rt parent_rate w"
  assumes en: "enabled r"
  shows "new_writes w (snd res) = (if a \<noteq> 0 then [av] else [av, sv]) \<and>
         fst res = (if a \<noteq> 0 then a else s) \<and>
         clks (snd res) = (if a = 0 \<and> s = 0 then (clks w)(hw := r\<lparr>rate := rt\<rparr>) else clks w)"
  using en unfolding res_def a_def s_def av_def sv_def p_def r_def
  by (simp add: set_rate_flat new_writes_def peer_active_def peer_sleep_def own_sleep_def
      Let_def)

theorem set_rate_commit_witness:
  "enabled (clks pcnoc_on 2) \<and>
   fst (clk_smd_rpm_set_rate (scripted []) 2 100000000 0 pcnoc_on) = 0 \<and>
   rate (clks (snd (clk_smd_rpm_set_rate (scripted []) 2 100000000 0 pcnoc_on)) 2) = 100000000 \<and>
   fst (clk_smd_rpm_set_rate (scripted [0, - 5]) 2 100000000 0 pcnoc_on) = - 5 \<and>
   rate (clks (snd (clk_smd_rpm_set_rate (scripted [0, - 5]) 2 100000000 0 pcnoc_on)) 2) = 0 \<and>
   fst (clk_smd_rpm_set_rate (scripted [- 22]) 2 100000000 0 pcnoc_on) = - 22 \<and>
   rate (clks (snd (clk_smd_rpm_set_rate (scripted [- 22]) 2 100000000 0 pcnoc_on)) 2) = 0 \<and>
   map (\<lambda>v. payload_value (w_buf v)) (new_writes pcnoc_on
      (snd (clk_smd_rpm_set_rate (scripted []) 2 100000000 0 pcnoc_on))) = [100000, 100000]"
proof -
  have en: "enabled (clks pcnoc_on 2)"
    by (simp add: example_defs)
  show ?thesis
    using en
      set_rate_commit [where tr = "scripted []" and hw = 2 and w = pcnoc_on
        and rt = 100000000 and parent_rate = 0, OF en]
      set_rate_commit [where tr = "scripted [0, - 5]" and hw = 2 and w = pcnoc_on
        and rt = 100000000 and parent_rate = 0, OF en]
      set_rate_commit [where tr = "scripted [- 22]" and hw = 2 and w = pcnoc_on
        and rt = 100000000 and parent_rate = 0, OF en]
    by (simp add: example_defs rpm_vote_def payload_fields DIV_ROUND_UP_def)
qed

subsection \<open>C6: the active vote comes before the sleep vote\<close>

text \<open>
  C6: in each of prepare, unprepare and set-rate, the votes submitted are, in order,
  an active-context vote, then a sleep-context vote, then (in prepare only) the
  compensating active-context vote; an operation may stop after any of them. So the
  first vote of an operation is an active-context vote, every sleep-context vote
  comes directly after it, and a second vote is submitted only if the transport
  accepted the first one. The rollback of prepare submits an active-context vote
  and no sleep-context vote.
\<close>

theorem active_before_sleep:
  fixes tr hw rt parent_rate w
  defines "wp \<equiv> new_writes w (snd (clk_smd_rpm_prepare tr hw w))"
  defines "wu \<equiv> new_writes w (clk_smd_rpm_unprepare tr hw w)"
  defines "wsr \<equiv> new_writes w (snd (clk_smd_rpm_set_rate tr hw rt parent_rate w))"
  shows "map w_state wp = take (length wp)
           [QCOM_SMD_RPM_ACTIVE_STATE, QCOM_SMD_RPM_SLEEP_STATE, QCOM_SMD_RPM_ACTIVE_STATE] \<and>
         map w_state wu = take (length wu) [QCOM_SMD_RPM_ACTIVE_STATE, QCOM_SMD_RPM_SLEEP_STATE] \<and>
         map w_state wsr = take (length wsr) [QCOM_SMD_RPM_ACTIVE_STATE, QCOM_SMD_RPM_SLEEP_STATE] \<and>
         (1 < length wp \<longrightarrow> tr (rpm_log w) (hd wp) = 0) \<and>
         (1 < length wu \<longrightarrow> tr (rpm_log w) (hd wu) = 0) \<and>
         (1 < length wsr \<longrightarrow> tr (rpm_log w) (hd wsr) = 0)"
  unfolding wp_def wu_def wsr_def
  using order_prepare [where tr = tr and hw = hw and w = w]
    order_unprepare [where tr = tr and hw = hw and w = w]
    order_set_rate [where tr = tr and hw = hw and w = w and rt = rt
      and parent_rate = parent_rate]
  by blast

theorem active_before_sleep_witness:
  "length (new_writes xo_both_on
      (snd (clk_smd_rpm_prepare (scripted [0, - 5, 0]) 0 xo_both_on))) = 3 \<and>
   map w_state (new_writes xo_both_on
      (snd (clk_smd_rpm_prepare (scripted [0, - 5, 0]) 0 xo_both_on))) =
     [QCOM_SMD_RPM_ACTIVE_STATE, QCOM_SMD_RPM_SLEEP_STATE, QCOM_SMD_RPM_ACTIVE_STATE] \<and>
   scripted [0, - 5, 0] (rpm_log xo_both_on) (hd (new_writes xo_both_on
      (snd (clk_smd_rpm_prepare (scripted [0, - 5, 0]) 0 xo_both_on)))) = 0 \<and>
   scripted [0, - 5, 0] (rpm_log xo_both_on) (hd (new_writes xo_both_on
      (clk_smd_rpm_unprepare (scripted [0, - 5, 0]) 0 xo_both_on))) = 0 \<and>
   scripted [0, - 5, 0] (rpm_log xo_both_on) (hd (new_writes xo_both_on
      (snd (clk_smd_rpm_set_rate (scripted [0, - 5, 0]) 0 19200000 0 xo_both_on)))) = 0 \<and>
   length (new_writes xo_both_on
      (clk_smd_rpm_unprepare (scripted [0, - 5, 0]) 0 xo_both_on)) = 2 \<and>
   map w_state (new_writes xo_both_on
      (clk_smd_rpm_unprepare (scripted [0, - 5, 0]) 0 xo_both_on)) =
     [QCOM_SMD_RPM_ACTIVE_STATE, QCOM_SMD_RPM_SLEEP_STATE] \<and>
   length (new_writes xo_both_on
      (snd (clk_smd_rpm_set_rate (scripted [0, - 5, 0]) 0 19200000 0 xo_both_on))) = 2 \<and>
   map w_state (new_writes xo_both_on
      (snd (clk_smd_rpm_set_rate (scripted [0, - 5, 0]) 0 19200000 0 xo_both_on))) =
     [QCOM_SMD_RPM_ACTIVE_STATE, QCOM_SMD_RPM_SLEEP_STATE]"
proof -
  let ?wp = "new_writes xo_both_on
      (snd (clk_smd_rpm_prepare (scripted [0, - 5, 0]) 0 xo_both_on))"
  let ?wu = "new_writes xo_both_on
      (clk_smd_rpm_unprepare (scripted [0, - 5, 0]) 0 xo_both_on)"
  let ?wsr = "new_writes xo_both_on
      (snd (clk_smd_rpm_set_rate (scripted [0, - 5, 0]) 0 19200000 0 xo_both_on))"
  have h1: "length ?wp = 3" by (simp add: eval_simps)
  have h2: "length ?wu = 2" by (simp add: eval_simps)
  have h3: "length ?wsr = 2" by (simp add: eval_simps)
  show ?thesis
    using h1 h2 h3
      active_before_sleep [where tr = "scripted [0, - 5, 0]" and hw = 0 and w = xo_both_on
        and rt = 19200000 and parent_rate = 0]
    by (simp add: numeral_3_eq_3)
qed

subsection \<open>C7: prepare of a handle whose rate is 0\<close>

text \<open>
  C7: for every handle whose requested rate is 0, prepare submits no vote to the
  transport, returns success (0) and leaves \<open>enabled\<close> true; nothing else in the
  world changes.
\<close>

theorem prepare_rate_zero:
  assumes "rate (clks w hw) = 0"
  shows "clk_smd_rpm_prepare tr hw w =
           (0, w\<lparr>clks := (clks w)(hw := (clks w hw)\<lparr>enabled := True\<rparr>)\<rparr>) \<and>
         new_writes w (snd (clk_smd_rpm_prepare tr hw w)) = [] \<and>
         fst (clk_smd_rpm_prepare tr hw w) = 0 \<and>
         enabled (clks (snd (clk_smd_rpm_prepare tr hw w)) hw)"
  using assms by (simp add: clk_smd_rpm_prepare_def prepare_out_def new_writes_def)

theorem prepare_rate_zero_witness:
  "rate (clks msm8916 2) = 0 \<and>
   fst (clk_smd_rpm_prepare (scripted [- 5]) 2 msm8916) = 0 \<and>
   rpm_log (snd (clk_smd_rpm_prepare (scripted [- 5]) 2 msm8916)) = [] \<and>
   enabled (clks (snd (clk_smd_rpm_prepare (scripted [- 5]) 2 msm8916)) 2)"
proof -
  have z: "rate (clks msm8916 2) = 0" by (simp add: example_defs)
  show ?thesis
    using z prepare_rate_zero [OF z, of "scripted [- 5]"]
    by (simp add: example_defs new_writes_def)
qed

subsection \<open>C8: set-rate on a handle that is not enabled\<close>

text \<open>
  C8: for every handle that is not enabled, set-rate returns success (0) at once,
  submits no vote and leaves the whole world as it was: the requested rate and every
  other field of every handle are unchanged, and the new rate is recorded nowhere.
\<close>

theorem set_rate_not_enabled:
  assumes "\<not> enabled (clks w hw)"
  shows "clk_smd_rpm_set_rate tr hw rt parent_rate w = (0, w)"
  using assms by (simp add: clk_smd_rpm_set_rate_def)

theorem set_rate_not_enabled_witness:
  "\<not> enabled (clks msm8916 2) \<and>
   clk_smd_rpm_set_rate (scripted [- 5]) 2 100000000 0 msm8916 = (0, msm8916) \<and>
   rate (clks (snd (clk_smd_rpm_set_rate (scripted [- 5]) 2 100000000 0 msm8916)) 2) = 0"
proof -
  have d: "\<not> enabled (clks msm8916 2)" by (simp add: example_defs)
  show ?thesis
    using d set_rate_not_enabled [OF d, of "scripted [- 5]" 100000000 0]
    by (simp add: example_defs)
qed

subsection \<open>C9: the payload of a vote\<close>

text \<open>
  C9 says that every vote carries \<open>ceil(rate / 1000)\<close> in its value field. The
  field is 32 bits wide and \<^verbatim>\<open>cpu_to_le32\<close> truncates: a vote for
  4294967296000 Hz, whose rate in kHz is \<open>2 ^ 32\<close>, carries the value 0.
\<close>

theorem vote_payload_truncated:
  "payload_value (w_buf (last (rpm_log (snd
     (clk_smd_rpm_set_rate_active (scripted []) pcnoc_clk 4294967296000 msm8916))))) = 0 \<and>
   nat \<lceil>real (unat (4294967296000 :: ulong)) / 1000\<rceil> = 4294967296"
  by (simp add: set_rate_active_vote rpm_vote_def payload_fields DIV_ROUND_UP_def)

text \<open>
  C9 as amended. The payload of every vote, active or sleep, is 12 bytes, and 12 is
  the length handed to the transport: three little-endian 32-bit fields, the
  handle's key, the constant 4, and the value; the two senders build the same payload.
  For every rate of at most 4294967295000 Hz (the rates whose value in kHz fits the
  32-bit field) the value is the rate rounded up to kHz, \<open>ceil(rate / 1000)\<close>.
  In particular 19200000 Hz gives 19200, 1 Hz gives 1, 1000 Hz gives 1 and 1001 Hz
  gives 2.
\<close>

theorem vote_payload_encoding:
  fixes tr r rt w
  defines "va \<equiv> last (rpm_log (snd (clk_smd_rpm_set_rate_active tr r rt w)))"
  defines "vs \<equiv> last (rpm_log (snd (clk_smd_rpm_set_rate_sleep tr r rt w)))"
  shows "length (w_buf va) = 12 \<and> w_count va = 12 \<and>
         payload_key (w_buf va) = unat (rpm_key r) \<and>
         payload_nbytes (w_buf va) = 4 \<and>
         w_buf vs = w_buf va \<and> w_count vs = 12 \<and>
         (unat rt \<le> 4294967295000 \<longrightarrow>
            payload_value (w_buf va) = nat \<lceil>real (unat rt) / 1000\<rceil>)"
proof -
  have layout: "length (w_buf va) = 12 \<and> w_count va = 12 \<and>
      payload_key (w_buf va) = unat (rpm_key r) \<and> payload_nbytes (w_buf va) = 4 \<and>
      w_buf vs = w_buf va \<and> w_count vs = 12"
    unfolding va_def vs_def
    by (simp add: set_rate_active_vote set_rate_sleep_vote rpm_vote_def payload_fields
        length_cpu_to_le32)
  have "payload_value (w_buf va) = nat \<lceil>real (unat rt) / 1000\<rceil>"
    if "unat rt \<le> 4294967295000"
  proof -
    have "payload_value (w_buf va) = unat (ucast (DIV_ROUND_UP rt 1000) :: u32)"
      unfolding va_def by (simp add: set_rate_active_vote rpm_vote_def payload_fields)
    also have "\<dots> = (unat rt + 999) div 1000"
      using that by (rule div_round_up_khz)
    also have "\<dots> = nat \<lceil>real (unat rt) / 1000\<rceil>"
      by (rule ceil_div_1000 [symmetric])
    finally show ?thesis .
  qed
  with layout show ?thesis by blast
qed

theorem vote_payload_encoding_witness:
  "unat (19200000 :: ulong) \<le> 4294967295000 \<and>
   payload_value (w_buf (last (rpm_log (snd
     (clk_smd_rpm_set_rate_active (scripted []) xo 19200000 msm8916))))) = 19200 \<and>
   payload_value (w_buf (last (rpm_log (snd
     (clk_smd_rpm_set_rate_active (scripted []) xo 1 msm8916))))) = 1 \<and>
   payload_value (w_buf (last (rpm_log (snd
     (clk_smd_rpm_set_rate_active (scripted []) xo 1000 msm8916))))) = 1 \<and>
   payload_value (w_buf (last (rpm_log (snd
     (clk_smd_rpm_set_rate_active (scripted []) xo 1001 msm8916))))) = 2 \<and>
   length (w_buf (last (rpm_log (snd
     (clk_smd_rpm_set_rate_sleep (scripted []) xo 1001 msm8916))))) = 12"
proof -
  have c: "nat \<lceil>real (unat (19200000 :: ulong)) / 1000\<rceil> = 19200"
    "nat \<lceil>real (unat (1 :: ulong)) / 1000\<rceil> = 1"
    "nat \<lceil>real (unat (1000 :: ulong)) / 1000\<rceil> = 1"
    "nat \<lceil>real (unat (1001 :: ulong)) / 1000\<rceil> = 2"
    by (simp_all only: ceil_div_1000) simp_all
  have h: "unat (19200000 :: ulong) \<le> 4294967295000" "unat (1 :: ulong) \<le> 4294967295000"
    "unat (1000 :: ulong) \<le> 4294967295000" "unat (1001 :: ulong) \<le> 4294967295000"
    by simp_all
  show ?thesis
    using h c
      vote_payload_encoding [where tr = "scripted []" and r = xo and rt = 19200000
        and w = msm8916]
      vote_payload_encoding [where tr = "scripted []" and r = xo and rt = 1 and w = msm8916]
      vote_payload_encoding [where tr = "scripted []" and r = xo and rt = 1000 and w = msm8916]
      vote_payload_encoding [where tr = "scripted []" and r = xo and rt = 1001 and w = msm8916]
    by metis
qed

subsection \<open>C10: the order of the two writes that enable scaling\<close>

text \<open>
  C10: \<^verbatim>\<open>clk_smd_rpm_enable_scaling\<close> submits its sleep-context write first and
  its active-context write second (the reverse of the order of the lifecycle
  callbacks). It always submits the sleep-context write; if the transport refuses
  it, no active-context write is submitted and the sleep-context error is returned;
  if it is accepted, the active-context write follows and its return code is returned.
  No handle is touched.
\<close>

theorem enable_scaling_order:
  fixes tr c rpm_h w
  defines "res \<equiv> clk_smd_rpm_enable_scaling tr c rpm_h w"
  defines "ws \<equiv> new_writes w (snd res)"
  defines "rs \<equiv> answers tr (rpm_log w) ws"
  shows "map w_state ws = take (length ws) [QCOM_SMD_RPM_SLEEP_STATE, QCOM_SMD_RPM_ACTIVE_STATE] \<and>
         ws \<noteq> [] \<and>
         (hd rs \<noteq> 0 \<longrightarrow> length ws = 1 \<and> fst res = hd rs) \<and>
         (hd rs = 0 \<longrightarrow> length ws = 2 \<and> fst res = rs ! 1) \<and>
         clks (snd res) = clks w"
  unfolding res_def ws_def rs_def
  by (simp add: clk_smd_rpm_enable_scaling_def qcom_rpm_smd_write_def new_writes_def
      Let_def split: prod.splits)

theorem enable_scaling_order_witness:
  "map w_state (rpm_log (snd (clk_smd_rpm_enable_scaling (scripted [- 5]) consts0 0 msm8916))) =
     [QCOM_SMD_RPM_SLEEP_STATE] \<and>
   fst (clk_smd_rpm_enable_scaling (scripted [- 5]) consts0 0 msm8916) = - 5 \<and>
   map w_state (rpm_log (snd (clk_smd_rpm_enable_scaling (scripted [0, - 22]) consts0 0 msm8916))) =
     [QCOM_SMD_RPM_SLEEP_STATE, QCOM_SMD_RPM_ACTIVE_STATE] \<and>
   fst (clk_smd_rpm_enable_scaling (scripted [0, - 22]) consts0 0 msm8916) = - 22"
  using enable_scaling_order [where tr = "scripted [- 5]" and c = consts0 and rpm_h = 0
      and w = msm8916]
    enable_scaling_order [where tr = "scripted [0, - 22]" and c = consts0 and rpm_h = 0
      and w = msm8916]
  by (simp add: example_defs new_writes_def clk_smd_rpm_enable_scaling_def
      qcom_rpm_smd_write_def Let_def)

end
